theory Spec2Isabelle
  imports Complex_Main
begin

section \<open>AssetAmount (asset-amount.ts)\<close>

subsection \<open>Asset information and the object store\<close>

text \<open>
  \<^verbatim>\<open>interface AssetInfo { id: number | bigint; decimals: number; unitName?: string; name?: string }\<close>

  An asset id is a JavaScript \<^verbatim>\<open>number\<close> or a \<^verbatim>\<open>bigint\<close>. The class compares ids with
  \<^verbatim>\<open>!==\<close>, which never identifies a number with a bigint (\<^verbatim>\<open>123 !== 123n\<close>), so the two
  cases are two constructors: equality of \<open>asset_id\<close> is strict equality. Ids are
  integer-valued and \<open>decimals\<close> is a natural number (a count of decimal places).
\<close>

datatype asset_id = IdNumber int | IdBigInt int

record AssetInfo =
  info_id :: asset_id
  info_decimals :: nat
  info_unitName :: "string option"
  info_name :: "string option"

text \<open>
  An \<^verbatim>\<open>AssetInfo\<close> is a plain mutable object that the caller owns; an amount keeps a
  reference to it (\<^verbatim>\<open>this._assetInfo = assetInfo\<close>). The store maps references to the
  objects they point to; a caller's assignment \<^verbatim>\<open>info.decimals = 2\<close> is a store update
  \<open>h(r := (h r)\<lparr>info_decimals := 2\<rparr>)\<close>. No method of the class writes to the store.
\<close>

type_synonym ref = nat
type_synonym store = "ref \<Rightarrow> AssetInfo"

subsection \<open>The part of bignumber.js the class uses\<close>

text \<open>
  A finite \<^verbatim>\<open>BigNumber\<close> is a decimal number of arbitrary precision; it is modelled by its
  value, a rational. \<^verbatim>\<open>plus\<close>, \<^verbatim>\<open>minus\<close>, \<^verbatim>\<open>multipliedBy\<close> and \<^verbatim>\<open>pow\<close> with a natural exponent
  are exact, so they are \<open>+\<close>, \<open>-\<close>, \<open>*\<close> and \<open>^\<close>. The library's configuration is never
  changed by the package, so the defaults apply: \<^verbatim>\<open>DECIMAL_PLACES = 20\<close>,
  \<^verbatim>\<open>ROUNDING_MODE = ROUND_HALF_UP\<close>, and \<^verbatim>\<open>toString\<close> changes to exponential notation
  where JavaScript numbers do (\<^verbatim>\<open>TO_EXP_POS = 21\<close>).
\<close>

datatype RoundingMode =
    ROUND_UP | ROUND_DOWN | ROUND_CEIL | ROUND_FLOOR
  | ROUND_HALF_UP | ROUND_HALF_DOWN | ROUND_HALF_EVEN | ROUND_HALF_CEIL | ROUND_HALF_FLOOR

text \<open>\<^verbatim>\<open>x.integerValue(rm)\<close>: the integer next to \<open>x\<close> in the direction the mode names.\<close>

definition integerValue :: "RoundingMode \<Rightarrow> rat \<Rightarrow> int" where
  "integerValue rm x =
     (case rm of
        ROUND_UP \<Rightarrow> (if x < 0 then \<lfloor>x\<rfloor> else \<lceil>x\<rceil>)
      | ROUND_DOWN \<Rightarrow> (if x < 0 then \<lceil>x\<rceil> else \<lfloor>x\<rfloor>)
      | ROUND_CEIL \<Rightarrow> \<lceil>x\<rceil>
      | ROUND_FLOOR \<Rightarrow> \<lfloor>x\<rfloor>
      | ROUND_HALF_UP \<Rightarrow> (if x < 0 then \<lceil>x - 1 / 2\<rceil> else \<lfloor>x + 1 / 2\<rfloor>)
      | ROUND_HALF_DOWN \<Rightarrow> (if x < 0 then \<lfloor>x + 1 / 2\<rfloor> else \<lceil>x - 1 / 2\<rceil>)
      | ROUND_HALF_EVEN \<Rightarrow>
          (if x - of_int \<lfloor>x\<rfloor> < 1 / 2 then \<lfloor>x\<rfloor>
           else if 1 / 2 < x - of_int \<lfloor>x\<rfloor> then \<lfloor>x\<rfloor> + 1
           else if even \<lfloor>x\<rfloor> then \<lfloor>x\<rfloor> else \<lfloor>x\<rfloor> + 1)
      | ROUND_HALF_CEIL \<Rightarrow> \<lfloor>x + 1 / 2\<rfloor>
      | ROUND_HALF_FLOOR \<Rightarrow> \<lceil>x - 1 / 2\<rceil>)"

definition DECIMAL_PLACES :: nat where
  "DECIMAL_PLACES = 20"

definition ROUNDING_MODE :: RoundingMode where
  "ROUNDING_MODE = ROUND_HALF_UP"

text \<open>
  \<^verbatim>\<open>x.dividedBy(y)\<close> for \<open>y \<noteq> 0\<close>: the quotient rounded to \<open>DECIMAL_PLACES\<close> decimal places
  in the mode \<open>ROUNDING_MODE\<close>. Every call below is reached with a non-zero divisor, or
  treats the zero divisor in a branch of its own.
\<close>

definition dividedBy :: "rat \<Rightarrow> rat \<Rightarrow> rat" where
  "dividedBy x y =
     of_int (integerValue ROUNDING_MODE (x / y * 10 ^ DECIMAL_PLACES)) / 10 ^ DECIMAL_PLACES"

datatype operation = Add | Subtract | Compare

datatype error =
    AssetIdentityMismatch operation asset_id asset_id
  | DecimalsMismatch operation
  | DivisionByZero
  | ZeroPrice
  | ZeroPercentageBase
  | SyntaxError
  | RangeError

definition TO_EXP_POS :: nat where
  "TO_EXP_POS = 21"

text \<open>
  \<^verbatim>\<open>BigInt(v.toString())\<close> for an integer-valued BigNumber \<open>v\<close>. \<^verbatim>\<open>toString\<close> writes plain
  digits while the decimal exponent of \<open>v\<close> is below \<open>TO_EXP_POS\<close>, that is while
  \<open>\<bar>v\<bar> < 10 ^ 21\<close>, and exponential notation (\<^verbatim>\<open>"1e+21"\<close>) from there on; \<^verbatim>\<open>BigInt\<close> parses
  plain digits only and throws a \<^verbatim>\<open>SyntaxError\<close> on exponential notation.
\<close>

definition BigInt_of_toString :: "int \<Rightarrow> error + int" where
  "BigInt_of_toString v = (if 10 ^ TO_EXP_POS \<le> \<bar>v\<bar> then Inl SyntaxError else Inr v)"

subsection \<open>The class\<close>

text \<open>
  \<^verbatim>\<open>private readonly _microUnits: BigNumber; private readonly _assetInfo: AssetInfo\<close>.
  Both fields are assigned once, in the constructor, so an amount is a value; its
  second field is the reference to the caller's \<^verbatim>\<open>AssetInfo\<close> object.
\<close>

record AssetAmount =
  priv_microUnits :: rat
  priv_assetInfo :: ref

datatype params = StandardUnitsParam rat | MicroUnitsParam rat

definition microUnits :: "AssetAmount \<Rightarrow> error + int" where
  "microUnits this = BigInt_of_toString (integerValue ROUND_DOWN (priv_microUnits this))"

definition microBigNum :: "AssetAmount \<Rightarrow> rat" where
  "microBigNum this = priv_microUnits this"

definition assetInfo :: "AssetAmount \<Rightarrow> ref" where
  "assetInfo this = priv_assetInfo this"

definition decimals :: "store \<Rightarrow> AssetAmount \<Rightarrow> nat" where
  "decimals h this = info_decimals (h (priv_assetInfo this))"

definition assetId :: "store \<Rightarrow> AssetAmount \<Rightarrow> asset_id" where
  "assetId h this = info_id (h (priv_assetInfo this))"

text \<open>
  The constructor. The arguments \<^verbatim>\<open>standardUnits: number | BigNumber | string\<close> and
  \<^verbatim>\<open>microUnits: bigint | number | BigNumber | string\<close> are given by the decimal value
  that \<^verbatim>\<open>new BigNumber(...)\<close> reads from them.
\<close>

definition new_AssetAmount :: "store \<Rightarrow> ref \<Rightarrow> params \<Rightarrow> AssetAmount" where
  "new_AssetAmount h assetInfo_arg p =
     (case p of
        StandardUnitsParam standardAmount \<Rightarrow>
          \<lparr>priv_microUnits =
             of_int (integerValue ROUND_DOWN
               (standardAmount * 10 ^ info_decimals (h assetInfo_arg))),
           priv_assetInfo = assetInfo_arg\<rparr>
      | MicroUnitsParam m \<Rightarrow>
          \<lparr>priv_microUnits = m, priv_assetInfo = assetInfo_arg\<rparr>)"

definition StandardUnits :: "store \<Rightarrow> ref \<Rightarrow> rat \<Rightarrow> AssetAmount" where
  "StandardUnits h assetInfo_arg amount = new_AssetAmount h assetInfo_arg (StandardUnitsParam amount)"

definition MicroUnits :: "store \<Rightarrow> ref \<Rightarrow> rat \<Rightarrow> AssetAmount" where
  "MicroUnits h assetInfo_arg amount = new_AssetAmount h assetInfo_arg (MicroUnitsParam amount)"

definition zero_amount :: "store \<Rightarrow> ref \<Rightarrow> AssetAmount" where
  "zero_amount h assetInfo_arg = new_AssetAmount h assetInfo_arg (MicroUnitsParam 0)"

definition fromCurrency :: "store \<Rightarrow> ref \<Rightarrow> rat \<Rightarrow> rat \<Rightarrow> error + AssetAmount" where
  "fromCurrency h assetInfo_arg currency price =
     (if price = 0 then Inl ZeroPrice
      else Inr (StandardUnits h assetInfo_arg (dividedBy currency price)))"

text \<open>
  The binary methods read the other operand through its public accessor
  \<^verbatim>\<open>other.microUnits.toString()\<close>, the integer view, and \<^verbatim>\<open>this\<close> through the field.
\<close>

definition add :: "store \<Rightarrow> AssetAmount \<Rightarrow> AssetAmount \<Rightarrow> error + AssetAmount" where
  "add h this other =
     (if assetId h this \<noteq> assetId h other
      then Inl (AssetIdentityMismatch Add (assetId h this) (assetId h other))
      else if decimals h this \<noteq> decimals h other then Inl (DecimalsMismatch Add)
      else case microUnits other of
             Inl e \<Rightarrow> Inl e
           | Inr m \<Rightarrow> Inr (MicroUnits h (priv_assetInfo this) (priv_microUnits this + of_int m)))"

definition subtract :: "store \<Rightarrow> AssetAmount \<Rightarrow> AssetAmount \<Rightarrow> error + AssetAmount" where
  "subtract h this other =
     (if assetId h this \<noteq> assetId h other
      then Inl (AssetIdentityMismatch Subtract (assetId h this) (assetId h other))
      else if decimals h this \<noteq> decimals h other then Inl (DecimalsMismatch Subtract)
      else case microUnits other of
             Inl e \<Rightarrow> Inl e
           | Inr m \<Rightarrow> Inr (MicroUnits h (priv_assetInfo this) (priv_microUnits this - of_int m)))"

definition multiply :: "store \<Rightarrow> AssetAmount \<Rightarrow> rat \<Rightarrow> AssetAmount" where
  "multiply h this multiplier =
     MicroUnits h (priv_assetInfo this)
       (of_int (integerValue ROUND_DOWN (priv_microUnits this * multiplier)))"

definition divide :: "store \<Rightarrow> AssetAmount \<Rightarrow> rat \<Rightarrow> error + AssetAmount" where
  "divide h this divisor =
     (if divisor = 0 then Inl DivisionByZero
      else Inr (MicroUnits h (priv_assetInfo this)
             (of_int (integerValue ROUND_DOWN (dividedBy (priv_microUnits this) divisor)))))"

text \<open>
  \<^verbatim>\<open>round(decimalPlaces = 0, roundingMode = ROUND_HALF_UP)\<close>. \<^verbatim>\<open>decimalPlaces\<close> is an integer
  (\<^verbatim>\<open>pow\<close> rejects any other exponent) and may be negative.
\<close>

definition round_amount :: "store \<Rightarrow> AssetAmount \<Rightarrow> int \<Rightarrow> RoundingMode \<Rightarrow> AssetAmount" where
  "round_amount h this decimalPlaces roundingMode =
     (if int (decimals h this) \<le> decimalPlaces then this
      else
        let digitsToRemove = nat (int (decimals h this) - decimalPlaces);
            divisor = 10 ^ digitsToRemove;
            rounded = of_int (integerValue roundingMode (dividedBy (priv_microUnits this) divisor))
                        * divisor
        in MicroUnits h (priv_assetInfo this) rounded)"

definition isZero :: "AssetAmount \<Rightarrow> bool" where
  "isZero this = (priv_microUnits this = 0)"

text \<open>
  \<^verbatim>\<open>percentageOf\<close> ends in \<^verbatim>\<open>toNumber()\<close>. The model returns the BigNumber that
  \<^verbatim>\<open>toNumber\<close> receives: a finite decimal, or what bignumber.js gives for a division by
  zero (\<^verbatim>\<open>NaN\<close> for \<open>0 / 0\<close>, an infinity with the sign of the dividend otherwise).
\<close>

datatype percentage = Finite rat | PlusInfinity | MinusInfinity | NaN

definition percentageOf :: "store \<Rightarrow> AssetAmount \<Rightarrow> AssetAmount \<Rightarrow> error + percentage" where
  "percentageOf h this other =
     (if assetId h this \<noteq> assetId h other
      then Inl (AssetIdentityMismatch Compare (assetId h this) (assetId h other))
      else if decimals h this \<noteq> decimals h other then Inl (DecimalsMismatch Compare)
      else if isZero other then Inl ZeroPercentageBase
      else case microUnits other of
             Inl e \<Rightarrow> Inl e
           | Inr m \<Rightarrow>
               Inr (if m = 0
                    then (if priv_microUnits this = 0 then NaN
                          else if priv_microUnits this < 0 then MinusInfinity
                          else PlusInfinity)
                    else Finite (dividedBy (priv_microUnits this) (of_int m) * 100)))"

text \<open>
  \<^verbatim>\<open>equals\<close>: \<^verbatim>\<open>&&\<close> evaluates its right operand only when the left one is true, so the
  accessor of \<open>other\<close> is read only when id and decimals agree.
\<close>

definition equals :: "store \<Rightarrow> AssetAmount \<Rightarrow> AssetAmount \<Rightarrow> error + bool" where
  "equals h this other =
     (if assetId h this = assetId h other \<and> decimals h this = decimals h other
      then case microUnits other of
             Inl e \<Rightarrow> Inl e
           | Inr m \<Rightarrow> Inr (priv_microUnits this = of_int m)
      else Inr False)"

text \<open>
  \<^verbatim>\<open>toJSON\<close> and \<^verbatim>\<open>fromJSON\<close>. The field \<^verbatim>\<open>microUnits: string\<close> holds
  \<^verbatim>\<open>this._microUnits.toString()\<close>; the string is given by the decimal it denotes
  (\<^verbatim>\<open>new BigNumber(x.toString())\<close> is \<open>x\<close> for every finite BigNumber).
\<close>

record json =
  json_assetInfo :: ref
  json_microUnits :: rat

definition toJSON :: "AssetAmount \<Rightarrow> json" where
  "toJSON this = \<lparr>json_assetInfo = priv_assetInfo this, json_microUnits = priv_microUnits this\<rparr>"

definition fromJSON :: "store \<Rightarrow> json \<Rightarrow> AssetAmount" where
  "fromJSON h j = MicroUnits h (json_assetInfo j) (json_microUnits j)"

section \<open>formatNumber (format.ts)\<close>

subsection \<open>The part of the JavaScript platform the function uses\<close>

text \<open>
  A finite JavaScript \<^verbatim>\<open>number\<close> is an IEEE 754 binary64 value; it is modelled by the
  rational it denotes. Comparison, \<^verbatim>\<open>Math.abs\<close> and unary minus are exact; division and
  the conversions to a number return the double next to the exact result, \<open>binary64\<close>
  of it: round to nearest, ties to even, 53 significant bits, gradual underflow below
  \<open>2 ^ - 1022\<close>. \<^verbatim>\<open>Math.pow\<close> is not bound to that and is a parameter of \<open>formatNumber\<close>.
  \<^verbatim>\<open>NaN\<close> and the infinities are outside the model: a string amount is one that
  \<^verbatim>\<open>Number\<close> reads as a finite number, and magnitudes stay below \<open>2 ^ 1024\<close>.
\<close>

text \<open>\<open>count_digits b n\<close>: the number of digits of \<open>n\<close> in base \<open>b\<close>.\<close>

function count_digits :: "int \<Rightarrow> int \<Rightarrow> int" where
  "count_digits b n = (if n \<le> 0 \<or> b \<le> 1 then 0 else 1 + count_digits b (n div b))"
  by pat_completeness auto
termination
proof (relation "measure (\<lambda>(b, n). nat n)")
  show "wf (measure (\<lambda>(b, n). nat n))" by simp
next
  fix b n :: int
  assume "\<not> (n \<le> 0 \<or> b \<le> 1)"
  then have "0 < n" and "1 < b" by simp_all
  then have "n div b < n" by (rule int_div_less_self)
  then show "((b, n div b), (b, n)) \<in> measure (\<lambda>(b, n). nat n)"
    using \<open>0 < n\<close> by simp
qed

text \<open>\<open>floor_log b x\<close> for \<open>x > 0\<close>: the integer \<open>e\<close> with \<open>b ^ e \<le> x < b ^ (e + 1)\<close>.\<close>

definition floor_log :: "int \<Rightarrow> rat \<Rightarrow> int" where
  "floor_log b x =
     (let (p, q) = quotient_of x;
          e = count_digits b p - count_digits b q
      in if of_int b powi e \<le> x then e else e - 1)"

definition binary64 :: "rat \<Rightarrow> rat" where
  "binary64 x =
     (if x = 0 then 0
      else let e = max (floor_log 2 (abs x)) (- 1022);
               ulp = 2 powi (e - 52)
           in of_int (integerValue ROUND_HALF_EVEN (x / ulp)) * ulp)"

text \<open>
  \<^verbatim>\<open>const value = typeof amount === 'string' ? Number(amount) : amount\<close> is a number or a
  bigint. \<open>mathematical_value\<close> is what comparisons and \<^verbatim>\<open>Intl.NumberFormat\<close> see of it,
  \<open>Number\<close> is the conversion \<^verbatim>\<open>Number(value)\<close>.
\<close>

datatype js_value = JNumber rat | JBigInt int

definition mathematical_value :: "js_value \<Rightarrow> rat" where
  "mathematical_value v = (case v of JNumber x \<Rightarrow> x | JBigInt n \<Rightarrow> of_int n)"

definition Number :: "js_value \<Rightarrow> rat" where
  "Number v = (case v of JNumber x \<Rightarrow> x | JBigInt n \<Rightarrow> binary64 (of_int n))"

text \<open>
  The shortest decimal that reads back as the double \<open>x\<close>, the digits that
  \<^verbatim>\<open>Number.prototype.toString\<close> writes: the least number \<open>k\<close> of significant digits such
  that a decimal of \<open>k\<close> digits rounds to \<open>x\<close>, and of the decimals of \<open>k\<close> digits the one
  next to \<open>x\<close>. \<open>shortest_digits fuel k x\<close> tries \<open>k\<close>, \<open>k + 1\<close>, ... digits for a
  positive \<open>x\<close>; seventeen digits are enough for every double.
\<close>

fun shortest_digits :: "nat \<Rightarrow> nat \<Rightarrow> rat \<Rightarrow> rat" where
  "shortest_digits 0 k x = x"
| "shortest_digits (Suc fuel) k x =
     (let unit = 10 powi (floor_log 10 x - int k + 1);
          s = \<lfloor>x / unit\<rfloor>;
          lo = of_int s * unit;
          hi = of_int (s + 1) * unit
      in if binary64 lo = x \<and> binary64 hi = x
         then (if x - lo < hi - x then lo
               else if hi - x < x - lo then hi
               else if even s then lo else hi)
         else if binary64 lo = x then lo
         else if binary64 hi = x then hi
         else shortest_digits fuel (Suc k) x)"

definition shortest_decimal :: "rat \<Rightarrow> rat" where
  "shortest_decimal x =
     (if x = 0 then 0
      else if x < 0 then - shortest_digits 17 1 (- x)
      else shortest_digits 17 1 x)"

text \<open>
  \<^verbatim>\<open>new Intl.NumberFormat('en-US', { style, currency: 'USD', maximumFractionDigits,
  minimumFractionDigits })\<close>: the constructor throws a \<^verbatim>\<open>RangeError\<close> unless
  \<open>0 \<le> min \<le> max \<le> 100\<close>. \<^verbatim>\<open>format\<close> takes the decimal digits of its argument, which are
  the shortest decimal of a number and the exact digits of a bigint, rounds them to
  \<open>max\<close> fraction digits, ties away from zero, drops trailing zeros beyond \<open>min\<close>
  digits, groups the integer digits in threes, and puts the minus sign and the dollar
  sign in front. So \<open>1.15\<close> with one fraction digit is \<^verbatim>\<open>"1.2"\<close>, although the double
  next to \<open>1.15\<close> lies below it.
\<close>

datatype style = Decimal | Currency

record NumberFormat =
  nf_style :: style
  nf_maximumFractionDigits :: nat
  nf_minimumFractionDigits :: nat

definition new_NumberFormat :: "style \<Rightarrow> nat \<Rightarrow> nat \<Rightarrow> error + NumberFormat" where
  "new_NumberFormat st maxFD minFD =
     (if 100 < minFD \<or> 100 < maxFD \<or> maxFD < minFD then Inl RangeError
      else Inr \<lparr>nf_style = st, nf_maximumFractionDigits = maxFD,
                nf_minimumFractionDigits = minFD\<rparr>)"

function decimal_digits :: "int \<Rightarrow> string" where
  "decimal_digits n =
     (if n < 10 then [''0123456789'' ! nat n]
      else decimal_digits (n div 10) @ [''0123456789'' ! nat (n mod 10)])"
  by pat_completeness auto
termination
  by (relation "measure nat") auto

text \<open>Grouping works on the reversed digits, so that groups are counted from the right.\<close>

fun group_thousands :: "string \<Rightarrow> string" where
  "group_thousands (a # b # c # d # ds) = a # b # c # CHR '','' # group_thousands (d # ds)"
| "group_thousands ds = ds"

definition fraction_digits :: "nat \<Rightarrow> nat \<Rightarrow> int \<Rightarrow> string" where
  "fraction_digits maxFD minFD f =
     (let ds = decimal_digits f;
          padded = replicate (maxFD - length ds) CHR ''0'' @ ds
      in take minFD padded
         @ rev (dropWhile (\<lambda>c. c = CHR ''0'') (rev (drop minFD padded))))"

definition decimal_of :: "js_value \<Rightarrow> rat" where
  "decimal_of v = (case v of JNumber x \<Rightarrow> shortest_decimal x | JBigInt n \<Rightarrow> of_int n)"

definition NumberFormat_format :: "NumberFormat \<Rightarrow> js_value \<Rightarrow> string" where
  "NumberFormat_format nf v =
     (let x = decimal_of v;
          n = integerValue ROUND_HALF_UP (abs x * 10 ^ nf_maximumFractionDigits nf);
          whole = n div 10 ^ nf_maximumFractionDigits nf;
          frac = (if nf_maximumFractionDigits nf = 0 then []
                  else fraction_digits (nf_maximumFractionDigits nf)
                         (nf_minimumFractionDigits nf)
                         (n mod 10 ^ nf_maximumFractionDigits nf))
      in (if x < 0 then ''-'' else [])
         @ (case nf_style nf of Currency \<Rightarrow> ''$'' | Decimal \<Rightarrow> [])
         @ rev (group_thousands (rev (decimal_digits whole)))
         @ (if frac = [] then [] else CHR ''.'' # frac))"

text \<open>
  \<^verbatim>\<open>parseInt(num.toExponential().split('e')[1])\<close>: the decimal exponent of the shortest
  decimal that reads back as \<open>num\<close>. It is the exponent of \<open>num\<close> itself, except when the
  next power of ten already reads back as \<open>num\<close>.
\<close>

definition toExponential_exponent :: "rat \<Rightarrow> int" where
  "toExponential_exponent num =
     (let e = floor_log 10 (abs num)
      in if binary64 (10 powi (e + 1)) = abs num then e + 1 else e)"

text \<open>
  \<^verbatim>\<open>num.toFixed(digits)\<close>, given by the decimal it writes: \<open>num\<close> rounded to \<open>digits\<close>
  places, ties away from zero; a \<^verbatim>\<open>RangeError\<close> for more than 100 digits.
\<close>

definition toFixed :: "rat \<Rightarrow> nat \<Rightarrow> error + rat" where
  "toFixed num digits =
     (if 100 < digits then Inl RangeError
      else Inr (of_int (integerValue ROUND_HALF_UP (num * 10 ^ digits)) / 10 ^ digits))"

subsection \<open>The functions\<close>

text \<open>
  \<^verbatim>\<open>type FormatOptions = { style?: 'currency' | 'decimal'; compact?: boolean | 'auto';
  fractionDigits?: number; adaptiveDecimals?: boolean }\<close>. An absent option is \<open>None\<close>;
  \<^verbatim>\<open>fractionDigits\<close> is a natural number.
\<close>

datatype compact = CompactBool bool | CompactAuto

record FormatOptions =
  opt_style :: "style option"
  opt_compact :: "compact option"
  opt_fractionDigits :: "nat option"
  opt_adaptiveDecimals :: "bool option"

text \<open>
  \<^verbatim>\<open>amount: string | number | bigint\<close>. A string is given by the number that
  \<^verbatim>\<open>Number(amount)\<close> reads from it.
\<close>

datatype amount = AmountString rat | AmountNumber rat | AmountBigInt int

definition roundToFirstNonZeroDecimal :: "rat \<Rightarrow> error + rat" where
  "roundToFirstNonZeroDecimal num =
     (if num = 0 then Inr 0
      else
        let exponent = toExponential_exponent num;
            decimalPlaces = nat (abs exponent)
        in case toFixed num decimalPlaces of
             Inl e \<Rightarrow> Inl e
           | Inr fixed \<Rightarrow> Inr (binary64 fixed))"

definition DEFAULT_COMPACT_THRESHOLD :: int where
  "DEFAULT_COMPACT_THRESHOLD = 100000"

record tier =
  threshold :: rat
  suffix :: string
  divisor :: rat

definition tiers :: "tier list" where
  "tiers =
     [\<lparr>threshold = 10 ^ 12, suffix = ''T'', divisor = 10 ^ 12\<rparr>,
      \<lparr>threshold = 10 ^ 9, suffix = ''B'', divisor = 10 ^ 9\<rparr>,
      \<lparr>threshold = 10 ^ 6, suffix = ''M'', divisor = 10 ^ 6\<rparr>,
      \<lparr>threshold = 10 ^ 3, suffix = ''K'', divisor = 10 ^ 3\<rparr>]"

definition value_of :: "amount \<Rightarrow> js_value" where
  "value_of amt =
     (case amt of AmountString x \<Rightarrow> JNumber x | AmountNumber x \<Rightarrow> JNumber x
      | AmountBigInt n \<Rightarrow> JBigInt n)"

text \<open>
  \<^verbatim>\<open>const shouldUseCompact = compact === 'auto' ? absValue >= DEFAULT_COMPACT_THRESHOLD : compact\<close>
\<close>

definition shouldUseCompact :: "compact \<Rightarrow> rat \<Rightarrow> bool" where
  "shouldUseCompact c absValue =
     (case c of
        CompactAuto \<Rightarrow> of_int DEFAULT_COMPACT_THRESHOLD \<le> absValue
      | CompactBool b \<Rightarrow> b)"

text \<open>
  \<^verbatim>\<open>Math.pow(10, -(fractionDigits ?? 2))\<close> is left to the engine: ECMAScript asks for an
  approximation only, and engines do not return the double next to the power for
  every exponent. \<open>formatNumber\<close> takes the function \<open>n \<mapsto> Math.pow(10, n)\<close> of the engine
  as its first argument, \<open>Math_pow10\<close>.
\<close>

definition formatNumber :: "(int \<Rightarrow> rat) \<Rightarrow> amount \<Rightarrow> FormatOptions \<Rightarrow> error + string" where
  "formatNumber Math_pow10 amt options =
     (let st = (case opt_style options of None \<Rightarrow> Decimal | Some s \<Rightarrow> s);
          cmp = (case opt_compact options of None \<Rightarrow> CompactBool False | Some c \<Rightarrow> c);
          fractionDigits = opt_fractionDigits options;
          adaptiveDecimals =
            (case opt_adaptiveDecimals options of None \<Rightarrow> False | Some b \<Rightarrow> b);
          v = value_of amt;
          absValue = abs (mathematical_value v);
          numValue = Number v;
          useRounding = (adaptiveDecimals \<and> numValue \<noteq> 0 \<and>
             abs numValue
               < Math_pow10 (- int (case fractionDigits of None \<Rightarrow> 2 | Some d \<Rightarrow> d)))
      in case new_NumberFormat st
                (if useRounding then 20
                 else (case fractionDigits of None \<Rightarrow> 2 | Some d \<Rightarrow> d))
                (if useRounding then 0
                 else (case fractionDigits of None \<Rightarrow> 2 | Some d \<Rightarrow> d)) of
           Inl e \<Rightarrow> Inl e
         | Inr baseFormatter \<Rightarrow>
             if \<not> shouldUseCompact cmp absValue
             then (if useRounding
                   then (case roundToFirstNonZeroDecimal numValue of
                           Inl e \<Rightarrow> Inl e
                         | Inr r \<Rightarrow> Inr (NumberFormat_format baseFormatter (JNumber r)))
                   else Inr (NumberFormat_format baseFormatter v))
             else
               (case find (\<lambda>t. threshold t \<le> absValue) tiers of
                  Some t \<Rightarrow>
                    (case new_NumberFormat st
                            (case fractionDigits of None \<Rightarrow> 1 | Some d \<Rightarrow> d)
                            (case fractionDigits of None \<Rightarrow> 1 | Some d \<Rightarrow> d) of
                       Inl e \<Rightarrow> Inl e
                     | Inr compactFormatter \<Rightarrow>
                         Inr (NumberFormat_format compactFormatter
                                (JNumber (binary64 (Number v / divisor t)))
                              @ suffix t))
                | None \<Rightarrow>
                    (if useRounding
                     then (case roundToFirstNonZeroDecimal numValue of
                             Inl e \<Rightarrow> Inl e
                           | Inr r \<Rightarrow> Inr (NumberFormat_format baseFormatter (JNumber r)))
                     else Inr (NumberFormat_format baseFormatter v))))"

section \<open>Fixtures and auxiliary predicates\<close>

text \<open>
  The asset of the test suite, \<^verbatim>\<open>{ id: 123, decimals: 6, unitName: 'XYZ', name: 'XYZ Token' }\<close>,
  and a store in which every reference points to an object with these fields.
\<close>

definition xyz :: AssetInfo where
  "xyz = \<lparr>info_id = IdNumber 123, info_decimals = 6,
           info_unitName = Some ''XYZ'', info_name = Some ''XYZ Token''\<rparr>"

definition fixture_store :: store where
  "fixture_store = (\<lambda>_. xyz)"

definition isInteger :: "rat \<Rightarrow> bool" where
  "isInteger x = (of_int \<lfloor>x\<rfloor> = x)"

definition tier_B :: tier where
  "tier_B = \<lparr>threshold = 10 ^ 9, suffix = ''B'', divisor = 10 ^ 9\<rparr>"

text \<open>
  A \<^verbatim>\<open>Math.pow(10, n)\<close> that returns the double next to the power, for the evaluations
  below that need one.
\<close>

definition nearest_pow10 :: "int \<Rightarrow> rat" where
  "nearest_pow10 n = binary64 (10 powi n)"

definition default_options :: FormatOptions where
  "default_options = \<lparr>opt_style = None, opt_compact = None, opt_fractionDigits = None,
     opt_adaptiveDecimals = None\<rparr>"

section \<open>Properties of AssetAmount\<close>

subsection \<open>Auxiliary facts\<close>

lemma integerValue_of_int: "integerValue rm (of_int n) = n"
  by (cases rm) (auto simp: integerValue_def floor_unique ceiling_unique)

lemma dividedBy_exact: "y \<noteq> 0 \<Longrightarrow> dividedBy (of_int n * y) y = of_int n"
  using integerValue_of_int[of ROUNDING_MODE "n * 10 ^ DECIMAL_PLACES"]
  by (simp add: dividedBy_def)

lemma MicroUnits_fields:
  "priv_microUnits (MicroUnits h r x) = x" "priv_assetInfo (MicroUnits h r x) = r"
  by (simp_all add: MicroUnits_def new_AssetAmount_def)

lemma StandardUnits_fields:
  "priv_microUnits (StandardUnits h r x) =
     of_int (integerValue ROUND_DOWN (x * 10 ^ info_decimals (h r)))"
  "priv_assetInfo (StandardUnits h r x) = r"
  by (simp_all add: StandardUnits_def new_AssetAmount_def)

lemma isInteger_of_int: "isInteger (of_int n)"
  by (simp add: isInteger_def)

lemma isIntegerE: "isInteger x \<Longrightarrow> \<exists>m. x = of_int m"
proof -
  assume "isInteger x"
  then have "x = of_int \<lfloor>x\<rfloor>" by (simp only: isInteger_def)
  then show ?thesis by (rule exI)
qed

lemma isInteger_add: "isInteger x \<Longrightarrow> isInteger (x + of_int n)"
proof -
  assume "isInteger x"
  then obtain m where "x = of_int m" using isIntegerE by blast
  then have "x + of_int n = of_int (m + n)" by simp
  then show ?thesis by (simp only: isInteger_of_int)
qed

lemma isInteger_diff: "isInteger x \<Longrightarrow> isInteger (x - of_int n)"
proof -
  assume "isInteger x"
  then obtain m where "x = of_int m" using isIntegerE by blast
  then have "x - of_int n = of_int (m - n)" by simp
  then show ?thesis by (simp only: isInteger_of_int)
qed

lemma isInteger_mult_pow: "isInteger (of_int n * 10 ^ k)"
proof -
  have "of_int n * 10 ^ k = (of_int (n * 10 ^ k) :: rat)" by simp
  then show ?thesis by (simp only: isInteger_of_int)
qed

lemma BigInt_of_toString_in_range:
  "\<bar>v\<bar> < 10 ^ TO_EXP_POS \<Longrightarrow> BigInt_of_toString v = Inr v"
  unfolding BigInt_of_toString_def by (simp only: not_le[symmetric] if_False)

lemma BigInt_of_toString_Inr: "BigInt_of_toString v = Inr w \<Longrightarrow> w = v"
  unfolding BigInt_of_toString_def by (cases "10 ^ TO_EXP_POS \<le> \<bar>v\<bar>") simp_all

lemma BigInt_of_toString_Inl: "BigInt_of_toString v = Inl e \<Longrightarrow> e = SyntaxError"
  unfolding BigInt_of_toString_def by (cases "10 ^ TO_EXP_POS \<le> \<bar>v\<bar>") simp_all

lemma microUnits_Inr:
  "microUnits a = Inr v \<Longrightarrow> v = integerValue ROUND_DOWN (priv_microUnits a)"
  unfolding microUnits_def by (rule BigInt_of_toString_Inr)

lemma microUnits_Inl: "microUnits a = Inl e \<Longrightarrow> e = SyntaxError"
  unfolding microUnits_def by (rule BigInt_of_toString_Inl)

lemma microUnits_in_range:
  "\<bar>integerValue ROUND_DOWN (priv_microUnits a)\<bar> < 10 ^ TO_EXP_POS \<Longrightarrow>
   microUnits a = Inr (integerValue ROUND_DOWN (priv_microUnits a))"
  unfolding microUnits_def by (rule BigInt_of_toString_in_range)

subsection \<open>Rounding\<close>

lemma round_amount_noop: "int (decimals h a) \<le> d \<Longrightarrow> round_amount h a d m = a"
  by (simp add: round_amount_def)

lemma round_amount_twice: "round_amount h (round_amount h a d m) d m = round_amount h a d m"
proof (cases "int (decimals h a) \<le> d")
  case True
  then show ?thesis by (simp add: round_amount_def)
next
  case False
  define k where "k = nat (int (decimals h a) - d)"
  define n where "n = integerValue m (dividedBy (priv_microUnits a) (10 ^ k))"
  define b where "b = MicroUnits h (priv_assetInfo a) (of_int n * 10 ^ k)"
  have r: "round_amount h a d m = b"
    using False by (simp add: round_amount_def Let_def k_def n_def b_def)
  have dec: "decimals h b = decimals h a"
    by (simp add: decimals_def b_def MicroUnits_fields)
  have "dividedBy (of_int n * 10 ^ k) (10 ^ k) = of_int n"
    by (rule dividedBy_exact) simp
  then have "round_amount h b d m = b"
    using False
    by (simp add: round_amount_def[of h b] dec Let_def k_def[symmetric] integerValue_of_int)
       (simp add: b_def MicroUnits_fields integerValue_of_int)
  then show ?thesis by (simp add: r)
qed

text \<open>
  C7. \<^verbatim>\<open>round\<close> is idempotent: for every amount, every number of decimal places and
  every rounding mode of bignumber.js (half-up, down, up, ceiling and floor among them),
  rounding the rounded amount again returns the same amount; and when the number of
  places is at least the asset's decimals, \<^verbatim>\<open>round\<close> returns the amount itself.
\<close>

theorem round_idempotent:
  "round_amount h (round_amount h a d m) d m = round_amount h a d m
   \<and> (int (decimals h a) \<le> d \<longrightarrow> round_amount h a d m = a)"
  by (simp add: round_amount_twice round_amount_noop)

theorem round_idempotent_witness:
  "int (decimals fixture_store (StandardUnits fixture_store 0 (555555 / 100000))) \<le> 8
   \<and> round_amount fixture_store (StandardUnits fixture_store 0 (555555 / 100000)) 8 ROUND_FLOOR
       = StandardUnits fixture_store 0 (555555 / 100000)
   \<and> round_amount fixture_store
         (round_amount fixture_store (StandardUnits fixture_store 0 (555555 / 100000)) 8 ROUND_FLOOR)
         8 ROUND_FLOOR
       = round_amount fixture_store (StandardUnits fixture_store 0 (555555 / 100000)) 8 ROUND_FLOOR"
proof -
  have le: "int (decimals fixture_store (StandardUnits fixture_store 0 (555555 / 100000))) \<le> 8"
    by code_simp
  show ?thesis
    using le round_idempotent[of fixture_store "StandardUnits fixture_store 0 (555555 / 100000)"
        8 ROUND_FLOOR]
    by blast
qed

subsection \<open>Construction from standard units\<close>

lemma StandardUnits_truncates:
  "priv_microUnits (StandardUnits h r x) =
     of_int (if x * 10 ^ info_decimals (h r) < 0
             then \<lceil>x * 10 ^ info_decimals (h r)\<rceil> else \<lfloor>x * 10 ^ info_decimals (h r)\<rfloor>)"
  by (simp add: StandardUnits_fields integerValue_def)

lemma StandardUnits_microUnits_in_range:
  assumes "\<bar>integerValue ROUND_DOWN (x * 10 ^ info_decimals (h r))\<bar> < 10 ^ TO_EXP_POS"
  shows "microUnits (StandardUnits h r x) = Inr (integerValue ROUND_DOWN (x * 10 ^ info_decimals (h r)))"
proof -
  have "integerValue ROUND_DOWN (priv_microUnits (StandardUnits h r x))
          = integerValue ROUND_DOWN (x * 10 ^ info_decimals (h r))"
    by (simp only: StandardUnits_fields integerValue_of_int)
  then show ?thesis
    using assms microUnits_in_range[of "StandardUnits h r x"] by simp
qed

text \<open>
  C1. An amount built from standard units stores \<open>x * 10 ^ decimals\<close> truncated toward
  zero, for negative \<open>x\<close> too (\<open>StandardUnits_truncates\<close>), and the integer accessor
  returns that integer while it is below \<open>10 ^ 21\<close> in magnitude
  (\<open>StandardUnits_microUnits_in_range\<close>). From \<open>10 ^ 21\<close> on the accessor does not return
  it: \<^verbatim>\<open>AssetAmount.StandardUnits({ id: 123, decimals: 6, ... }, '1000000000000000')\<close> stores
  \<open>10 ^ 21\<close>, \<^verbatim>\<open>toString()\<close> writes it as \<^verbatim>\<open>"1e+21"\<close>, and \<^verbatim>\<open>BigInt\<close> throws.
\<close>

theorem StandardUnits_microUnits_throws:
  "priv_microUnits (StandardUnits fixture_store 0 (10 ^ 15)) = 10 ^ 21
   \<and> microUnits (StandardUnits fixture_store 0 (10 ^ 15)) = Inl SyntaxError"
  by code_simp

subsection \<open>Addition and subtraction\<close>

lemma add_AssetIdentityMismatch_iff:
  "(add h a b = Inl (AssetIdentityMismatch Add (assetId h a) (assetId h b)))
     = (assetId h a \<noteq> assetId h b)"
  by (cases "microUnits b") (auto simp: add_def dest: microUnits_Inl)

lemma add_DecimalsMismatch_iff:
  "(add h a b = Inl (DecimalsMismatch Add))
     = (assetId h a = assetId h b \<and> decimals h a \<noteq> decimals h b)"
  by (cases "microUnits b") (auto simp: add_def dest: microUnits_Inl)

lemma subtract_AssetIdentityMismatch_iff:
  "(subtract h a b = Inl (AssetIdentityMismatch Subtract (assetId h a) (assetId h b)))
     = (assetId h a \<noteq> assetId h b)"
  by (cases "microUnits b") (auto simp: subtract_def dest: microUnits_Inl)

lemma subtract_DecimalsMismatch_iff:
  "(subtract h a b = Inl (DecimalsMismatch Subtract))
     = (assetId h a = assetId h b \<and> decimals h a \<noteq> decimals h b)"
  by (cases "microUnits b") (auto simp: subtract_def dest: microUnits_Inl)

lemma add_same_identity:
  assumes "assetId h a = assetId h b" and "decimals h a = decimals h b"
    and "microUnits b = Inr m"
  shows "add h a b = Inr \<lparr>priv_microUnits = priv_microUnits a + of_int m,
                           priv_assetInfo = priv_assetInfo a\<rparr>"
  using assms by (simp add: add_def MicroUnits_def new_AssetAmount_def)

lemma subtract_same_identity:
  assumes "assetId h a = assetId h b" and "decimals h a = decimals h b"
    and "microUnits b = Inr m"
  shows "subtract h a b = Inr \<lparr>priv_microUnits = priv_microUnits a - of_int m,
                                priv_assetInfo = priv_assetInfo a\<rparr>"
  using assms by (simp add: subtract_def MicroUnits_def new_AssetAmount_def)

text \<open>
  C2. The two mismatch failures are raised exactly as stated (the four lemmas above).
  The value of a successful call is not the sum or difference of the two raw values:
  the other operand is read through its integer accessor, so its fraction is dropped.
  With \<open>a = 0\<close> and \<open>b = 1.5\<close> microunits of the same asset, \<open>a.add(b)\<close> holds \<open>1\<close> and
  \<open>a.subtract(b)\<close> holds \<open>-1\<close>.
\<close>

theorem add_subtract_drop_fraction_of_other:
  "add fixture_store (MicroUnits fixture_store 0 0) (MicroUnits fixture_store 0 (3 / 2))
     = Inr (MicroUnits fixture_store 0 1)
   \<and> subtract fixture_store (MicroUnits fixture_store 0 0) (MicroUnits fixture_store 0 (3 / 2))
     = Inr (MicroUnits fixture_store 0 (- 1))"
  by code_simp

subsection \<open>Equality and serialization\<close>

lemma fromJSON_toJSON: "fromJSON h (toJSON a) = a"
  by (simp add: fromJSON_def toJSON_def MicroUnits_def new_AssetAmount_def)

lemma equals_identity_differs:
  "assetId h a \<noteq> assetId h b \<or> decimals h a \<noteq> decimals h b \<Longrightarrow> equals h a b = Inr False"
  by (auto simp: equals_def)

lemma equals_same_identity:
  assumes "assetId h a = assetId h b" and "decimals h a = decimals h b"
    and "microUnits b = Inr m"
  shows "equals h a b = Inr (priv_microUnits a = of_int m)"
  using assms by (simp add: equals_def)

text \<open>
  C3. \<^verbatim>\<open>fromJSON(a.toJSON())\<close> is the amount \<open>a\<close> again, field by field
  (\<open>fromJSON_toJSON\<close>), but \<^verbatim>\<open>equals\<close> does not hold between the two when the raw value
  has a fraction: for \<open>a = MicroUnits(xyz, "1.5")\<close> it compares \<open>1.5\<close> with the integer
  view \<open>1\<close> of the other operand and returns \<^verbatim>\<open>false\<close>.
\<close>

theorem fromJSON_toJSON_equals_false:
  "equals fixture_store
     (fromJSON fixture_store (toJSON (MicroUnits fixture_store 0 (3 / 2))))
     (MicroUnits fixture_store 0 (3 / 2)) = Inr False"
  by code_simp

text \<open>
  C4. \<^verbatim>\<open>equals\<close> returns \<^verbatim>\<open>false\<close> whenever id or decimals differ
  (\<open>equals_identity_differs\<close>). With the same identity it compares the raw value of the
  receiver with the integer view of the other operand, not with its raw value: an
  amount of \<open>1.5\<close> microunits is not equal to itself, \<open>1\<close> is equal to \<open>1.5\<close>, and the
  call throws when the other operand holds \<open>10 ^ 21\<close> or more.
\<close>

theorem equals_reads_integer_view:
  "equals fixture_store (MicroUnits fixture_store 0 (3 / 2)) (MicroUnits fixture_store 0 (3 / 2))
     = Inr False
   \<and> equals fixture_store (MicroUnits fixture_store 0 1) (MicroUnits fixture_store 0 (3 / 2))
     = Inr True
   \<and> equals fixture_store (MicroUnits fixture_store 0 1) (MicroUnits fixture_store 0 (10 ^ 21))
     = Inl SyntaxError"
  by code_simp

text \<open>
  C6. For \<open>a = 1.5\<close> and \<open>b = 0\<close> microunits of the same asset, \<open>a.add(b).subtract(b)\<close>
  holds the raw value \<open>1.5\<close> of \<open>a\<close>, and \<^verbatim>\<open>equals(a)\<close> on it returns \<^verbatim>\<open>false\<close>.
\<close>

theorem add_subtract_equals_false:
  "add fixture_store (MicroUnits fixture_store 0 (3 / 2)) (zero_amount fixture_store 0)
     = Inr (MicroUnits fixture_store 0 (3 / 2))
   \<and> subtract fixture_store (MicroUnits fixture_store 0 (3 / 2)) (zero_amount fixture_store 0)
     = Inr (MicroUnits fixture_store 0 (3 / 2))
   \<and> equals fixture_store (MicroUnits fixture_store 0 (3 / 2)) (MicroUnits fixture_store 0 (3 / 2))
     = Inr False"
  by code_simp

subsection \<open>Percentage\<close>

lemma percentageOf_AssetIdentityMismatch_iff:
  "(percentageOf h a b = Inl (AssetIdentityMismatch Compare (assetId h a) (assetId h b)))
     = (assetId h a \<noteq> assetId h b)"
  by (cases "microUnits b") (auto simp: percentageOf_def dest: microUnits_Inl)

lemma percentageOf_DecimalsMismatch_iff:
  "(percentageOf h a b = Inl (DecimalsMismatch Compare))
     = (assetId h a = assetId h b \<and> decimals h a \<noteq> decimals h b)"
  by (cases "microUnits b") (auto simp: percentageOf_def dest: microUnits_Inl)

lemma percentageOf_ZeroPercentageBase_iff:
  "(percentageOf h a b = Inl ZeroPercentageBase)
     = (assetId h a = assetId h b \<and> decimals h a = decimals h b \<and> isZero b)"
  by (cases "microUnits b") (auto simp: percentageOf_def dest: microUnits_Inl)

text \<open>
  C8. The three failures are raised as stated (the lemmas above). The value is not
  \<open>a.raw / other.raw * 100\<close>: the guard tests the raw value of \<open>other\<close> for zero, the
  division takes its integer view. For \<open>a = 1\<close> and \<open>other = 0.5\<close> microunits the guard
  passes, the divisor is \<open>0\<close> and the result is \<^verbatim>\<open>Infinity\<close>, where the claim gives \<open>200\<close>;
  for \<open>a = 3\<close> and \<open>other = 1.5\<close> the result is \<open>300\<close>.
\<close>

theorem percentageOf_divides_by_integer_view:
  "percentageOf fixture_store (MicroUnits fixture_store 0 1) (MicroUnits fixture_store 0 (1 / 2))
     = Inr PlusInfinity
   \<and> percentageOf fixture_store (MicroUnits fixture_store 0 3) (MicroUnits fixture_store 0 (3 / 2))
     = Inr (Finite 300)"
  by code_simp

subsection \<open>The identity of an amount\<close>

text \<open>
  C5 as stated fails: the constructor stores the caller's object, not a copy. After
  \<^verbatim>\<open>const a = AssetAmount.StandardUnits(info, 5); info.decimals = 2\<close> the accessor
  \<^verbatim>\<open>a.decimals\<close> returns \<open>2\<close>, where it returned \<open>6\<close> before.
\<close>

theorem identity_not_snapshotted:
  "decimals (fixture_store(0 := xyz\<lparr>info_decimals := 2\<rparr>)) (StandardUnits fixture_store 0 5)
     \<noteq> decimals fixture_store (StandardUnits fixture_store 0 5)"
  by code_simp

text \<open>
  C5, amended. An amount holds a reference to the identity object it was constructed
  with: \<^verbatim>\<open>assetInfo\<close> returns that reference, and \<^verbatim>\<open>assetId\<close> and \<^verbatim>\<open>decimals\<close> return the
  fields that the object has in the store \<open>h'\<close> in which they are read, whatever the
  store \<open>h\<close> was at construction. The raw value, computed at construction, is a field
  of the amount and does not depend on \<open>h'\<close>.
\<close>

theorem identity_held_by_reference:
  "assetInfo (new_AssetAmount h r p) = r
   \<and> assetId h' (new_AssetAmount h r p) = info_id (h' r)
   \<and> decimals h' (new_AssetAmount h r p) = info_decimals (h' r)"
  by (cases p) (simp_all add: assetInfo_def assetId_def decimals_def new_AssetAmount_def)

subsection \<open>Integer raw values\<close>

lemma multiply_isInteger: "isInteger (priv_microUnits (multiply h a s))"
  by (simp only: multiply_def MicroUnits_fields isInteger_of_int)

lemma divide_isInteger: "divide h a s = Inr q \<Longrightarrow> isInteger (priv_microUnits q)"
  by (cases "s = 0") (auto simp: divide_def MicroUnits_fields isInteger_of_int)

lemma round_amount_isInteger:
  "d < int (decimals h a) \<Longrightarrow> isInteger (priv_microUnits (round_amount h a d m))"
  by (simp add: round_amount_def Let_def MicroUnits_fields isInteger_mult_pow)

lemma microUnits_of_isInteger:
  assumes "isInteger (priv_microUnits c)" and "\<bar>priv_microUnits c\<bar> < 10 ^ 21"
  shows "microUnits c = Inr \<lfloor>priv_microUnits c\<rfloor>"
    and "of_int \<lfloor>priv_microUnits c\<rfloor> = priv_microUnits c"
proof -
  obtain n where n: "priv_microUnits c = of_int n"
    using assms(1) isIntegerE by blast
  have "\<bar>(of_int n :: rat)\<bar> < 10 ^ 21"
    using assms(2) by (simp only: n)
  then have "(of_int \<bar>n\<bar> :: rat) < of_int (10 ^ 21)"
    by simp
  then have "\<bar>n\<bar> < 10 ^ 21"
    by (simp only: of_int_less_iff)
  then have "\<bar>integerValue ROUND_DOWN (priv_microUnits c)\<bar> < 10 ^ TO_EXP_POS"
    by (simp add: n integerValue_of_int TO_EXP_POS_def)
  then have "microUnits c = Inr (integerValue ROUND_DOWN (priv_microUnits c))"
    by (rule microUnits_in_range)
  then show "microUnits c = Inr \<lfloor>priv_microUnits c\<rfloor>"
    by (simp add: n integerValue_of_int)
  show "of_int \<lfloor>priv_microUnits c\<rfloor> = priv_microUnits c"
    by (simp add: n)
qed

lemma add_isInteger:
  assumes "isInteger (priv_microUnits a)" and "isInteger (priv_microUnits b)"
    and "add h a b = Inr c"
  shows "isInteger (priv_microUnits c)"
proof (cases "microUnits b")
  case (Inl e)
  then show ?thesis using assms(3) by (auto simp: add_def split: if_splits)
next
  case (Inr n)
  then have "c = MicroUnits h (priv_assetInfo a) (priv_microUnits a + of_int n)"
    using assms(3) by (auto simp: add_def split: if_splits)
  then show ?thesis by (simp only: MicroUnits_fields isInteger_add[OF assms(1)])
qed

lemma subtract_isInteger:
  assumes "isInteger (priv_microUnits a)" and "isInteger (priv_microUnits b)"
    and "subtract h a b = Inr c"
  shows "isInteger (priv_microUnits c)"
proof (cases "microUnits b")
  case (Inl e)
  then show ?thesis using assms(3) by (auto simp: subtract_def split: if_splits)
next
  case (Inr n)
  then have "c = MicroUnits h (priv_assetInfo a) (priv_microUnits a - of_int n)"
    using assms(3) by (auto simp: subtract_def split: if_splits)
  then show ?thesis by (simp only: MicroUnits_fields isInteger_diff[OF assms(1)])
qed

text \<open>
  C10 as stated fails for \<^verbatim>\<open>round\<close>: with \<^verbatim>\<open>decimalPlaces >= decimals\<close> it returns the
  receiver, and \<^verbatim>\<open>AssetAmount.MicroUnits(xyz, '1.5').round(6)\<close> holds \<open>1.5\<close>.
\<close>

theorem round_keeps_fraction:
  "\<not> isInteger (priv_microUnits
        (round_amount fixture_store (MicroUnits fixture_store 0 (3 / 2)) 6 ROUND_HALF_UP))"
  by code_simp

text \<open>
  C10, amended. The amounts returned by \<^verbatim>\<open>StandardUnits\<close>, \<^verbatim>\<open>multiply\<close> and \<^verbatim>\<open>divide\<close>, and
  by \<^verbatim>\<open>round\<close> with \<^verbatim>\<open>decimalPlaces < decimals\<close>, have an integer raw value (so have those
  of \<^verbatim>\<open>zero\<close> and \<^verbatim>\<open>fromCurrency\<close>), and on an
  amount with an integer raw value below \<open>10 ^ 21\<close> in magnitude the integer accessor
  returns exactly that value. \<^verbatim>\<open>round\<close> with \<^verbatim>\<open>decimalPlaces >= decimals\<close> returns the
  receiver as it is. \<^verbatim>\<open>add\<close> and \<^verbatim>\<open>subtract\<close> of two amounts with integer raw values
  return an integer raw value. So a fractional raw value comes from \<^verbatim>\<open>MicroUnits\<close> only,
  directly or through \<^verbatim>\<open>add\<close>, \<^verbatim>\<open>subtract\<close> or the \<^verbatim>\<open>round\<close> that returns its receiver.
\<close>

theorem integer_raw_values:
  "isInteger (priv_microUnits (StandardUnits h r x))
   \<and> isInteger (priv_microUnits (multiply h a s))
   \<and> (\<forall>q. divide h a s = Inr q \<longrightarrow> isInteger (priv_microUnits q))
   \<and> isInteger (priv_microUnits (zero_amount h r))
   \<and> (\<forall>q. fromCurrency h r x y = Inr q \<longrightarrow> isInteger (priv_microUnits q))
   \<and> (d < int (decimals h a) \<longrightarrow> isInteger (priv_microUnits (round_amount h a d m)))
   \<and> (int (decimals h a) \<le> d' \<longrightarrow> round_amount h a d' m = a)
   \<and> (\<forall>c. isInteger (priv_microUnits a) \<longrightarrow> isInteger (priv_microUnits b) \<longrightarrow>
          add h a b = Inr c \<longrightarrow> isInteger (priv_microUnits c))
   \<and> (\<forall>c. isInteger (priv_microUnits a) \<longrightarrow> isInteger (priv_microUnits b) \<longrightarrow>
          subtract h a b = Inr c \<longrightarrow> isInteger (priv_microUnits c))
   \<and> (isInteger (priv_microUnits a) \<longrightarrow> \<bar>priv_microUnits a\<bar> < 10 ^ 21 \<longrightarrow>
          microUnits a = Inr \<lfloor>priv_microUnits a\<rfloor>
          \<and> of_int \<lfloor>priv_microUnits a\<rfloor> = priv_microUnits a)"
proof (intro conjI allI impI)
  show "isInteger (priv_microUnits (StandardUnits h r x))"
    by (simp only: StandardUnits_fields isInteger_of_int)
  show "isInteger (priv_microUnits (multiply h a s))"
    by (rule multiply_isInteger)
  show "isInteger (priv_microUnits q)" if "divide h a s = Inr q" for q
    using that by (rule divide_isInteger)
  show "isInteger (priv_microUnits (zero_amount h r))"
    using isInteger_of_int[of 0] by (simp add: zero_amount_def new_AssetAmount_def)
  show "isInteger (priv_microUnits q)" if "fromCurrency h r x y = Inr q" for q
    using that
    by (cases "y = 0") (auto simp: fromCurrency_def StandardUnits_fields isInteger_of_int)
  show "isInteger (priv_microUnits (round_amount h a d m))" if "d < int (decimals h a)"
    using that by (rule round_amount_isInteger)
  show "round_amount h a d' m = a" if "int (decimals h a) \<le> d'"
    using that by (rule round_amount_noop)
  show "isInteger (priv_microUnits c)"
    if "isInteger (priv_microUnits a)" and "isInteger (priv_microUnits b)"
      and "add h a b = Inr c" for c
    using that by (rule add_isInteger)
  show "isInteger (priv_microUnits c)"
    if "isInteger (priv_microUnits a)" and "isInteger (priv_microUnits b)"
      and "subtract h a b = Inr c" for c
    using that by (rule subtract_isInteger)
  show "microUnits a = Inr \<lfloor>priv_microUnits a\<rfloor>"
    if "isInteger (priv_microUnits a)" and "\<bar>priv_microUnits a\<bar> < 10 ^ 21"
    using that by (rule microUnits_of_isInteger)
  show "of_int \<lfloor>priv_microUnits a\<rfloor> = priv_microUnits a"
    if "isInteger (priv_microUnits a)" and "\<bar>priv_microUnits a\<bar> < 10 ^ 21"
    using that by (rule microUnits_of_isInteger)
qed

theorem integer_raw_values_witness:
  "isInteger (priv_microUnits (StandardUnits fixture_store 0 (11 / 2)))
   \<and> isInteger (priv_microUnits (multiply fixture_store (StandardUnits fixture_store 0 (11 / 2)) 3))
   \<and> divide fixture_store (StandardUnits fixture_store 0 (11 / 2)) 3
       = Inr (MicroUnits fixture_store 0 1833333)
   \<and> isInteger (priv_microUnits (MicroUnits fixture_store 0 1833333))
   \<and> fromCurrency fixture_store 0 (11 / 2) 10 = Inr (MicroUnits fixture_store 0 550000)
   \<and> isInteger (priv_microUnits (MicroUnits fixture_store 0 550000))
   \<and> 2 < int (decimals fixture_store (StandardUnits fixture_store 0 (11 / 2)))
   \<and> isInteger (priv_microUnits
        (round_amount fixture_store (StandardUnits fixture_store 0 (11 / 2)) 2 ROUND_HALF_UP))
   \<and> int (decimals fixture_store (StandardUnits fixture_store 0 (11 / 2))) \<le> 8
   \<and> round_amount fixture_store (StandardUnits fixture_store 0 (11 / 2)) 8 ROUND_HALF_UP
       = StandardUnits fixture_store 0 (11 / 2)
   \<and> isInteger (priv_microUnits (StandardUnits fixture_store 0 10))
   \<and> add fixture_store (StandardUnits fixture_store 0 (11 / 2)) (StandardUnits fixture_store 0 10)
       = Inr (MicroUnits fixture_store 0 15500000)
   \<and> isInteger (priv_microUnits (MicroUnits fixture_store 0 15500000))
   \<and> subtract fixture_store (StandardUnits fixture_store 0 (11 / 2)) (StandardUnits fixture_store 0 10)
       = Inr (MicroUnits fixture_store 0 (- 4500000))
   \<and> isInteger (priv_microUnits (MicroUnits fixture_store 0 (- 4500000)))
   \<and> \<bar>priv_microUnits (StandardUnits fixture_store 0 (11 / 2))\<bar> < 10 ^ 21
   \<and> microUnits (StandardUnits fixture_store 0 (11 / 2)) = Inr 5500000
   \<and> of_int 5500000 = priv_microUnits (StandardUnits fixture_store 0 (11 / 2))"
proof -
  let ?a = "StandardUnits fixture_store 0 (11 / 2)"
  let ?b = "StandardUnits fixture_store 0 10"
  have dv: "divide fixture_store ?a 3 = Inr (MicroUnits fixture_store 0 1833333)"
    by code_simp
  have fc: "fromCurrency fixture_store 0 (11 / 2) 10 = Inr (MicroUnits fixture_store 0 550000)"
    by code_simp
  have lt: "2 < int (decimals fixture_store ?a)"
    by code_simp
  have le: "int (decimals fixture_store ?a) \<le> 8"
    by code_simp
  have ia: "isInteger (priv_microUnits ?a)"
    by code_simp
  have ib: "isInteger (priv_microUnits ?b)"
    by code_simp
  have ad: "add fixture_store ?a ?b = Inr (MicroUnits fixture_store 0 15500000)"
    by code_simp
  have sb: "subtract fixture_store ?a ?b = Inr (MicroUnits fixture_store 0 (- 4500000))"
    by code_simp
  have bd: "\<bar>priv_microUnits ?a\<bar> < 10 ^ 21"
    by code_simp
  have fl: "\<lfloor>priv_microUnits ?a\<rfloor> = 5500000"
    by code_simp
  have "isInteger (priv_microUnits (multiply fixture_store ?a 3))"
    and "isInteger (priv_microUnits (MicroUnits fixture_store 0 1833333))"
    and "isInteger (priv_microUnits (MicroUnits fixture_store 0 550000))"
    and "isInteger (priv_microUnits (round_amount fixture_store ?a 2 ROUND_HALF_UP))"
    and "round_amount fixture_store ?a 8 ROUND_HALF_UP = ?a"
    and "isInteger (priv_microUnits (MicroUnits fixture_store 0 15500000))"
    and "isInteger (priv_microUnits (MicroUnits fixture_store 0 (- 4500000)))"
    and "microUnits ?a = Inr \<lfloor>priv_microUnits ?a\<rfloor>"
    and "of_int \<lfloor>priv_microUnits ?a\<rfloor> = priv_microUnits ?a"
    using dv fc lt le ia ib ad sb bd
      integer_raw_values[where h = fixture_store and r = 0 and x = "11 / 2" and a = ?a
        and b = ?b and s = 3 and y = 10 and d = 2 and d' = 8 and m = ROUND_HALF_UP]
    by blast+
  then show ?thesis
    using dv fc lt le ia ib ad sb bd fl by simp
qed


section \<open>Properties of formatNumber\<close>

lemma find_tier:
  assumes "t \<in> set tiers" and "threshold t \<le> x"
    and "\<forall>u\<in>set tiers. threshold u \<le> x \<longrightarrow> threshold u \<le> threshold t"
  shows "find (\<lambda>u. threshold u \<le> x) tiers = Some t"
  using assms by (auto simp: tiers_def)

lemma find_no_tier: "x < 1000 \<Longrightarrow> find (\<lambda>u. threshold u \<le> x) tiers = None"
  by (simp add: tiers_def)

lemma find_some_tier: "1000 \<le> x \<Longrightarrow> \<exists>t. find (\<lambda>u. threshold u \<le> x) tiers = Some t"
  by (simp add: tiers_def)

lemma new_NumberFormat_ok:
  "d \<le> 100 \<Longrightarrow> new_NumberFormat st d d
     = Inr \<lparr>nf_style = st, nf_maximumFractionDigits = d, nf_minimumFractionDigits = d\<rparr>"
  by (simp add: new_NumberFormat_def)

lemma new_NumberFormat_adaptive:
  "new_NumberFormat st 20 0
     = Inr \<lparr>nf_style = st, nf_maximumFractionDigits = 20, nf_minimumFractionDigits = 0\<rparr>"
  by (simp add: new_NumberFormat_def)

lemma new_NumberFormat_base:
  "(case fd of None \<Rightarrow> 1 | Some d \<Rightarrow> d) \<le> (100::nat) \<Longrightarrow>
   \<exists>bf. new_NumberFormat st (if r then 20 else (case fd of None \<Rightarrow> 2 | Some d \<Rightarrow> d))
          (if r then 0 else (case fd of None \<Rightarrow> 2 | Some d \<Rightarrow> d)) = Inr bf"
  by (cases fd) (auto simp: new_NumberFormat_def)

lemma formatNumber_compact_path:
  assumes c: "opt_compact options = Some (CompactBool True)
              \<or> opt_compact options = Some CompactAuto
                \<and> 100000 \<le> abs (mathematical_value (value_of amt))"
    and t: "t \<in> set tiers" "threshold t \<le> abs (mathematical_value (value_of amt))"
      "\<forall>u\<in>set tiers. threshold u \<le> abs (mathematical_value (value_of amt))
          \<longrightarrow> threshold u \<le> threshold t"
    and d: "(case opt_fractionDigits options of None \<Rightarrow> 1 | Some d \<Rightarrow> d) \<le> 100"
  shows "formatNumber P amt options =
     Inr (NumberFormat_format
            \<lparr>nf_style = (case opt_style options of None \<Rightarrow> Decimal | Some s \<Rightarrow> s),
             nf_maximumFractionDigits =
               (case opt_fractionDigits options of None \<Rightarrow> 1 | Some d \<Rightarrow> d),
             nf_minimumFractionDigits =
               (case opt_fractionDigits options of None \<Rightarrow> 1 | Some d \<Rightarrow> d)\<rparr>
            (JNumber (binary64 (Number (value_of amt) / divisor t)))
          @ suffix t)"
proof -
  have s: "shouldUseCompact
             (case opt_compact options of None \<Rightarrow> CompactBool False | Some c \<Rightarrow> c)
             (abs (mathematical_value (value_of amt)))"
    using c by (auto simp: shouldUseCompact_def DEFAULT_COMPACT_THRESHOLD_def)
  obtain bf where bf: "new_NumberFormat
      (case opt_style options of None \<Rightarrow> Decimal | Some s \<Rightarrow> s)
      (if (case opt_adaptiveDecimals options of None \<Rightarrow> False | Some b \<Rightarrow> b)
            \<and> Number (value_of amt) \<noteq> 0
            \<and> abs (Number (value_of amt))
                 < P (- int (case opt_fractionDigits options of None \<Rightarrow> 2 | Some d \<Rightarrow> d))
       then 20 else (case opt_fractionDigits options of None \<Rightarrow> 2 | Some d \<Rightarrow> d))
      (if (case opt_adaptiveDecimals options of None \<Rightarrow> False | Some b \<Rightarrow> b)
            \<and> Number (value_of amt) \<noteq> 0
            \<and> abs (Number (value_of amt))
                 < P (- int (case opt_fractionDigits options of None \<Rightarrow> 2 | Some d \<Rightarrow> d))
       then 0 else (case opt_fractionDigits options of None \<Rightarrow> 2 | Some d \<Rightarrow> d)) = Inr bf"
    using new_NumberFormat_base[OF d] by blast
  show ?thesis
    unfolding formatNumber_def Let_def
    by (simp only: bf sum.case find_tier[OF t] option.case new_NumberFormat_ok[OF d] s
          not_True_eq_False if_False)
qed

lemma formatNumber_base_path:
  assumes c: "opt_compact options = None
              \<or> opt_compact options = Some (CompactBool False)
              \<or> opt_compact options = Some CompactAuto
                \<and> abs (mathematical_value (value_of amt)) < 100000
              \<or> abs (mathematical_value (value_of amt)) < 1000"
    and d: "(case opt_fractionDigits options of None \<Rightarrow> 2 | Some d \<Rightarrow> d) \<le> 100"
  shows "formatNumber P amt options =
     (if (case opt_adaptiveDecimals options of None \<Rightarrow> False | Some b \<Rightarrow> b)
           \<and> Number (value_of amt) \<noteq> 0
           \<and> abs (Number (value_of amt))
                < P (- int (case opt_fractionDigits options of None \<Rightarrow> 2 | Some d \<Rightarrow> d))
      then (case roundToFirstNonZeroDecimal (Number (value_of amt)) of
              Inl e \<Rightarrow> Inl e
            | Inr r \<Rightarrow>
                Inr (NumberFormat_format
                       \<lparr>nf_style = (case opt_style options of None \<Rightarrow> Decimal | Some s \<Rightarrow> s),
                        nf_maximumFractionDigits = 20, nf_minimumFractionDigits = 0\<rparr>
                       (JNumber r)))
      else Inr (NumberFormat_format
                  \<lparr>nf_style = (case opt_style options of None \<Rightarrow> Decimal | Some s \<Rightarrow> s),
                   nf_maximumFractionDigits =
                     (case opt_fractionDigits options of None \<Rightarrow> 2 | Some d \<Rightarrow> d),
                   nf_minimumFractionDigits =
                     (case opt_fractionDigits options of None \<Rightarrow> 2 | Some d \<Rightarrow> d)\<rparr>
                  (value_of amt)))"
proof -
  have "\<not> shouldUseCompact
             (case opt_compact options of None \<Rightarrow> CompactBool False | Some c \<Rightarrow> c)
             (abs (mathematical_value (value_of amt)))
        \<or> find (\<lambda>u. threshold u \<le> abs (mathematical_value (value_of amt))) tiers = None"
    using c find_no_tier[of "abs (mathematical_value (value_of amt))"]
    by (auto simp: shouldUseCompact_def DEFAULT_COMPACT_THRESHOLD_def)
  then show ?thesis
    unfolding formatNumber_def Let_def
    by (auto simp: new_NumberFormat_ok[OF d] new_NumberFormat_adaptive)
qed

text \<open>
  C9. With \<^verbatim>\<open>compact\<close> \<^verbatim>\<open>true\<close>, and with \<^verbatim>\<open>'auto'\<close> when the magnitude of the value is at
  least 100,000, \<open>formatNumber\<close> takes the compact branch: when \<open>t\<close> is the tier with the
  largest threshold not above the magnitude, the result is the value divided by the
  divisor of \<open>t\<close>, formatted with a fixed number of fraction digits (\<^verbatim>\<open>fractionDigits\<close>, 1
  when absent; at most 100, the bound of \<^verbatim>\<open>Intl.NumberFormat\<close>), followed by the suffix of
  \<open>t\<close>. With \<^verbatim>\<open>compact\<close> absent or \<^verbatim>\<open>false\<close>, and with \<^verbatim>\<open>'auto'\<close> below 100,000, the
  result is that of the base formatter, with no suffix; so it is below 1000, where no
  tier has its threshold under the magnitude. So
  \<^verbatim>\<open>formatNumber(1_500_000, { compact: true })\<close> is \<^verbatim>\<open>"1.5M"\<close>, and with \<^verbatim>\<open>'auto'\<close> 1000 is
  \<^verbatim>\<open>"1,000.00"\<close> and 100000 is \<^verbatim>\<open>"100.0K"\<close>, whatever \<^verbatim>\<open>Math.pow\<close> returns.
\<close>

theorem formatNumber_compact:
  "(opt_compact options = Some (CompactBool True)
      \<or> opt_compact options = Some CompactAuto
        \<and> 100000 \<le> abs (mathematical_value (value_of amt))
    \<longrightarrow> t \<in> set tiers
    \<longrightarrow> threshold t \<le> abs (mathematical_value (value_of amt))
    \<longrightarrow> (\<forall>u\<in>set tiers. threshold u \<le> abs (mathematical_value (value_of amt))
           \<longrightarrow> threshold u \<le> threshold t)
    \<longrightarrow> (case opt_fractionDigits options of None \<Rightarrow> 1 | Some d \<Rightarrow> d) \<le> 100
    \<longrightarrow> formatNumber P amt options =
          Inr (NumberFormat_format
                 \<lparr>nf_style = (case opt_style options of None \<Rightarrow> Decimal | Some s \<Rightarrow> s),
                  nf_maximumFractionDigits =
                    (case opt_fractionDigits options of None \<Rightarrow> 1 | Some d \<Rightarrow> d),
                  nf_minimumFractionDigits =
                    (case opt_fractionDigits options of None \<Rightarrow> 1 | Some d \<Rightarrow> d)\<rparr>
                 (JNumber (binary64 (Number (value_of amt) / divisor t)))
               @ suffix t))
   \<and> (opt_compact options' = None
      \<or> opt_compact options' = Some (CompactBool False)
      \<or> opt_compact options' = Some CompactAuto
        \<and> abs (mathematical_value (value_of amt')) < 100000
      \<or> abs (mathematical_value (value_of amt')) < 1000
    \<longrightarrow> (case opt_fractionDigits options' of None \<Rightarrow> 2 | Some d \<Rightarrow> d) \<le> 100
    \<longrightarrow> formatNumber P amt' options' =
          (if (case opt_adaptiveDecimals options' of None \<Rightarrow> False | Some b \<Rightarrow> b)
                \<and> Number (value_of amt') \<noteq> 0
                \<and> abs (Number (value_of amt'))
                     < P (- int (case opt_fractionDigits options' of None \<Rightarrow> 2 | Some d \<Rightarrow> d))
           then (case roundToFirstNonZeroDecimal (Number (value_of amt')) of
                   Inl e \<Rightarrow> Inl e
                 | Inr r \<Rightarrow>
                     Inr (NumberFormat_format
                            \<lparr>nf_style =
                               (case opt_style options' of None \<Rightarrow> Decimal | Some s \<Rightarrow> s),
                             nf_maximumFractionDigits = 20, nf_minimumFractionDigits = 0\<rparr>
                            (JNumber r)))
           else Inr (NumberFormat_format
                       \<lparr>nf_style =
                          (case opt_style options' of None \<Rightarrow> Decimal | Some s \<Rightarrow> s),
                        nf_maximumFractionDigits =
                          (case opt_fractionDigits options' of None \<Rightarrow> 2 | Some d \<Rightarrow> d),
                        nf_minimumFractionDigits =
                          (case opt_fractionDigits options' of None \<Rightarrow> 2 | Some d \<Rightarrow> d)\<rparr>
                       (value_of amt'))))
   \<and> formatNumber P (AmountNumber 1500000)
         \<lparr>opt_style = None, opt_compact = Some (CompactBool True), opt_fractionDigits = None,
          opt_adaptiveDecimals = None\<rparr> = Inr ''1.5M''
   \<and> formatNumber P (AmountNumber 1000)
         \<lparr>opt_style = None, opt_compact = Some CompactAuto, opt_fractionDigits = None,
          opt_adaptiveDecimals = None\<rparr> = Inr ''1,000.00''
   \<and> formatNumber P (AmountNumber 100000)
         \<lparr>opt_style = None, opt_compact = Some CompactAuto, opt_fractionDigits = None,
          opt_adaptiveDecimals = None\<rparr> = Inr ''100.0K''"
proof -
  have literal: "formatNumber P (AmountNumber 1500000)
         \<lparr>opt_style = None, opt_compact = Some (CompactBool True), opt_fractionDigits = None,
          opt_adaptiveDecimals = None\<rparr> = Inr ''1.5M''"
    by code_simp
  have small: "formatNumber P (AmountNumber 1000)
         \<lparr>opt_style = None, opt_compact = Some CompactAuto, opt_fractionDigits = None,
          opt_adaptiveDecimals = None\<rparr> = Inr ''1,000.00''"
    by code_simp
  have large: "formatNumber P (AmountNumber 100000)
         \<lparr>opt_style = None, opt_compact = Some CompactAuto, opt_fractionDigits = None,
          opt_adaptiveDecimals = None\<rparr> = Inr ''100.0K''"
    by code_simp
  show ?thesis
    using literal small large formatNumber_compact_path[of options amt t P]
      formatNumber_base_path[of options' amt' P]
    by blast
qed

theorem formatNumber_compact_witness:
  "opt_compact (default_options\<lparr>opt_compact := Some (CompactBool True)\<rparr>)
     = Some (CompactBool True)
   \<and> tier_B \<in> set tiers
   \<and> threshold tier_B \<le> abs (mathematical_value (value_of (AmountBigInt (- 1500000000))))
   \<and> formatNumber nearest_pow10 (AmountBigInt (- 1500000000))
         (default_options\<lparr>opt_compact := Some (CompactBool True)\<rparr>) = Inr ''-1.5B''
   \<and> opt_compact (default_options\<lparr>opt_compact := Some CompactAuto\<rparr>) = Some CompactAuto
   \<and> abs (mathematical_value (value_of (AmountNumber 99999))) < 100000
   \<and> formatNumber nearest_pow10 (AmountNumber 99999)
         (default_options\<lparr>opt_compact := Some CompactAuto\<rparr>) = Inr ''99,999.00''"
proof -
  let ?o = "default_options\<lparr>opt_compact := Some (CompactBool True)\<rparr>"
  let ?a = "AmountBigInt (- 1500000000)"
  let ?o' = "default_options\<lparr>opt_compact := Some CompactAuto\<rparr>"
  let ?a' = "AmountNumber 99999"
  have c: "opt_compact ?o = Some (CompactBool True)" by simp
  have m: "tier_B \<in> set tiers" by code_simp
  have le: "threshold tier_B \<le> abs (mathematical_value (value_of ?a))" by code_simp
  have mx: "\<forall>u\<in>set tiers. threshold u \<le> abs (mathematical_value (value_of ?a))
              \<longrightarrow> threshold u \<le> threshold tier_B"
    by code_simp
  have d: "(case opt_fractionDigits ?o of None \<Rightarrow> 1 | Some d \<Rightarrow> d) \<le> (100::nat)"
    by (simp add: default_options_def)
  have r: "NumberFormat_format
             \<lparr>nf_style = (case opt_style ?o of None \<Rightarrow> Decimal | Some s \<Rightarrow> s),
              nf_maximumFractionDigits = (case opt_fractionDigits ?o of None \<Rightarrow> 1 | Some d \<Rightarrow> d),
              nf_minimumFractionDigits = (case opt_fractionDigits ?o of None \<Rightarrow> 1 | Some d \<Rightarrow> d)\<rparr>
             (JNumber (binary64 (Number (value_of ?a) / divisor tier_B))) @ suffix tier_B
           = ''-1.5B''"
    by code_simp
  have c': "opt_compact ?o' = Some CompactAuto" by simp
  have lt: "abs (mathematical_value (value_of ?a')) < 100000" by code_simp
  have d': "(case opt_fractionDigits ?o' of None \<Rightarrow> 2 | Some d \<Rightarrow> d) \<le> (100::nat)"
    by (simp add: default_options_def)
  have r': "(if (case opt_adaptiveDecimals ?o' of None \<Rightarrow> False | Some b \<Rightarrow> b)
                \<and> Number (value_of ?a') \<noteq> 0
                \<and> abs (Number (value_of ?a'))
                     < nearest_pow10 (- int (case opt_fractionDigits ?o' of None \<Rightarrow> 2 | Some d \<Rightarrow> d))
           then (case roundToFirstNonZeroDecimal (Number (value_of ?a')) of
                   Inl e \<Rightarrow> Inl e
                 | Inr r \<Rightarrow>
                     Inr (NumberFormat_format
                            \<lparr>nf_style =
                               (case opt_style ?o' of None \<Rightarrow> Decimal | Some s \<Rightarrow> s),
                             nf_maximumFractionDigits = 20, nf_minimumFractionDigits = 0\<rparr>
                            (JNumber r)))
           else Inr (NumberFormat_format
                       \<lparr>nf_style =
                          (case opt_style ?o' of None \<Rightarrow> Decimal | Some s \<Rightarrow> s),
                        nf_maximumFractionDigits =
                          (case opt_fractionDigits ?o' of None \<Rightarrow> 2 | Some d \<Rightarrow> d),
                        nf_minimumFractionDigits =
                          (case opt_fractionDigits ?o' of None \<Rightarrow> 2 | Some d \<Rightarrow> d)\<rparr>
                       (value_of ?a'))) = Inr ''99,999.00''"
    by code_simp
  have "formatNumber nearest_pow10 ?a ?o = Inr ''-1.5B''"
    and "formatNumber nearest_pow10 ?a' ?o' = Inr ''99,999.00''"
    using formatNumber_compact[where options = ?o and amt = ?a and t = tier_B
        and options' = ?o' and amt' = ?a' and P = nearest_pow10] c m le mx d r c' lt d' r'
    by simp_all
  then show ?thesis using c m le c' lt by simp
qed

section \<open>The expectations of the test suite\<close>

text \<open>
  The embedding evaluated on the inputs of \<^verbatim>\<open>asset-amount.test.ts\<close> and \<^verbatim>\<open>format.test.ts\<close>,
  with the results the tests expect. A number literal such as \<^verbatim>\<open>1234.56\<close> is the double
  next to it. Where the result depends on \<^verbatim>\<open>Math.pow\<close>, the engine is one whose
  \<^verbatim>\<open>Math.pow(10, -2)\<close> and \<^verbatim>\<open>Math.pow(10, -3)\<close> are the doubles next to 0.01 and 0.001.
\<close>

lemma test_constructors:
  "microUnits (StandardUnits fixture_store 0 (55 / 10)) = Inr 5500000"
  "microUnits (MicroUnits fixture_store 0 5500000) = Inr 5500000"
  "microUnits (StandardUnits fixture_store 0 (55123456 / 10000000)) = Inr 5512345"
  "microUnits (zero_amount fixture_store 0) = Inr 0"
  "fromCurrency fixture_store 0 100 10 = Inr (MicroUnits fixture_store 0 10000000)"
  "fromCurrency fixture_store 0 100 0 = Inl ZeroPrice"
  "microUnits (StandardUnits fixture_store 0 (10 ^ 12)) = Inr 1000000000000000000"
  "microUnits (StandardUnits fixture_store 0 (1 / 10 ^ 6)) = Inr 1"
  by code_simp+

lemma test_arithmetic:
  "add fixture_store (StandardUnits fixture_store 0 (55 / 10)) (StandardUnits fixture_store 0 10)
     = Inr (MicroUnits fixture_store 0 15500000)"
  "subtract fixture_store (StandardUnits fixture_store 0 5) (StandardUnits fixture_store 0 10)
     = Inr (MicroUnits fixture_store 0 (- 5000000))"
  "multiply fixture_store (StandardUnits fixture_store 0 (55 / 10)) 2 = MicroUnits fixture_store 0 11000000"
  "divide fixture_store (StandardUnits fixture_store 0 11) 2 = Inr (MicroUnits fixture_store 0 5500000)"
  "divide fixture_store (StandardUnits fixture_store 0 11) 0 = Inl DivisionByZero"
  "round_amount fixture_store (StandardUnits fixture_store 0 (555555 / 100000)) 2 ROUND_HALF_UP
     = MicroUnits fixture_store 0 5560000"
  "round_amount fixture_store (StandardUnits fixture_store 0 (555555 / 100000)) 8 ROUND_HALF_UP
     = MicroUnits fixture_store 0 5555550"
  "percentageOf fixture_store (StandardUnits fixture_store 0 25) (StandardUnits fixture_store 0 100)
     = Inr (Finite 25)"
  "percentageOf fixture_store (StandardUnits fixture_store 0 25) (zero_amount fixture_store 0)
     = Inl ZeroPercentageBase"
  "equals fixture_store (StandardUnits fixture_store 0 10) (StandardUnits fixture_store 0 10) = Inr True"
  "equals fixture_store (StandardUnits fixture_store 0 10) (StandardUnits fixture_store 0 5) = Inr False"
  by code_simp+

lemma test_formatNumber:
  "formatNumber P (AmountNumber 1234) default_options = Inr ''1,234.00''"
  "formatNumber P (AmountNumber (- 5678)) default_options = Inr ''-5,678.00''"
  "formatNumber P (AmountNumber (binary64 (123456 / 100))) default_options = Inr ''1,234.56''"
  "formatNumber P (AmountBigInt 1234) default_options = Inr ''1,234.00''"
  "formatNumber P (AmountNumber 1234) (default_options\<lparr>opt_fractionDigits := Some 0\<rparr>)
     = Inr ''1,234''"
  "formatNumber P (AmountNumber (binary64 (1 / 100000)))
     (default_options\<lparr>opt_adaptiveDecimals := Some False, opt_fractionDigits := Some 2\<rparr>)
     = Inr ''0.00''"
  by code_simp+

lemma test_compact_notation:
  "formatNumber P (AmountNumber 1500) (default_options\<lparr>opt_compact := Some (CompactBool True)\<rparr>)
     = Inr ''1.5K''"
  "formatNumber P (AmountNumber 15000000000000)
     (default_options\<lparr>opt_compact := Some (CompactBool True)\<rparr>) = Inr ''15.0T''"
  "formatNumber P (AmountNumber 1500000)
     (default_options\<lparr>opt_compact := Some (CompactBool True), opt_fractionDigits := Some 0\<rparr>)
     = Inr ''2M''"
  "formatNumber P (AmountNumber 1150000)
     (default_options\<lparr>opt_compact := Some (CompactBool True)\<rparr>) = Inr ''1.2M''"
  by code_simp+

lemma formatNumber_Math_pow10_cong:
  assumes "P (- int (case opt_fractionDigits options of None \<Rightarrow> 2 | Some d \<Rightarrow> d))
            = Q (- int (case opt_fractionDigits options of None \<Rightarrow> 2 | Some d \<Rightarrow> d))"
  shows "formatNumber P amt options = formatNumber Q amt options"
  using assms by (simp add: formatNumber_def)

lemma test_adaptiveDecimals:
  assumes "P (- 2) = nearest_pow10 (- 2)" and "P (- 3) = nearest_pow10 (- 3)"
  shows "formatNumber P (AmountNumber (binary64 (1 / 100000)))
           (default_options\<lparr>opt_adaptiveDecimals := Some True\<rparr>) = Inr ''0.00001''"
    and "formatNumber P (AmountNumber (binary64 (1 / 1000000)))
           (default_options\<lparr>opt_adaptiveDecimals := Some True, opt_fractionDigits := Some 3\<rparr>)
           = Inr ''0.000001''"
    and "formatNumber P (AmountNumber (binary64 (3 / 1000)))
           (default_options\<lparr>opt_adaptiveDecimals := Some True\<rparr>) = Inr ''0.003''"
proof -
  have "formatNumber nearest_pow10 (AmountNumber (binary64 (1 / 100000)))
          (default_options\<lparr>opt_adaptiveDecimals := Some True\<rparr>) = Inr ''0.00001''"
    by code_simp
  then show "formatNumber P (AmountNumber (binary64 (1 / 100000)))
           (default_options\<lparr>opt_adaptiveDecimals := Some True\<rparr>) = Inr ''0.00001''"
    using assms(1)
      formatNumber_Math_pow10_cong[where P = P and Q = nearest_pow10
        and options = "default_options\<lparr>opt_adaptiveDecimals := Some True\<rparr>"]
    by (simp add: default_options_def)
  have "formatNumber nearest_pow10 (AmountNumber (binary64 (1 / 1000000)))
          (default_options\<lparr>opt_adaptiveDecimals := Some True, opt_fractionDigits := Some 3\<rparr>)
          = Inr ''0.000001''"
    by code_simp
  then show "formatNumber P (AmountNumber (binary64 (1 / 1000000)))
           (default_options\<lparr>opt_adaptiveDecimals := Some True, opt_fractionDigits := Some 3\<rparr>)
           = Inr ''0.000001''"
    using assms(2)
      formatNumber_Math_pow10_cong[where P = P and Q = nearest_pow10
        and options =
          "default_options\<lparr>opt_adaptiveDecimals := Some True, opt_fractionDigits := Some 3\<rparr>"]
    by (simp add: default_options_def)
  have "formatNumber nearest_pow10 (AmountNumber (binary64 (3 / 1000)))
          (default_options\<lparr>opt_adaptiveDecimals := Some True\<rparr>) = Inr ''0.003''"
    by code_simp
  then show "formatNumber P (AmountNumber (binary64 (3 / 1000)))
           (default_options\<lparr>opt_adaptiveDecimals := Some True\<rparr>) = Inr ''0.003''"
    using assms(1)
      formatNumber_Math_pow10_cong[where P = P and Q = nearest_pow10
        and options = "default_options\<lparr>opt_adaptiveDecimals := Some True\<rparr>"]
    by (simp add: default_options_def)
qed

lemma test_Intl_NumberFormat:
  "NumberFormat_format
     \<lparr>nf_style = Decimal, nf_maximumFractionDigits = 2, nf_minimumFractionDigits = 2\<rparr>
     (JNumber (binary64 (1005 / 1000))) = ''1.01''"
  "NumberFormat_format
     \<lparr>nf_style = Currency, nf_maximumFractionDigits = 2, nf_minimumFractionDigits = 2\<rparr>
     (JNumber (- 1234567)) = ''-$1,234,567.00''"
  by code_simp+

lemma test_roundToFirstNonZeroDecimal:
  "roundToFirstNonZeroDecimal 0 = Inr 0"
  "roundToFirstNonZeroDecimal (binary64 (1234 / 1000000)) = Inr (binary64 (1 / 1000))"
  "roundToFirstNonZeroDecimal (binary64 (5678 / 10000000)) = Inr (binary64 (6 / 10000))"
  "roundToFirstNonZeroDecimal 123 = Inr 123"
  "roundToFirstNonZeroDecimal (binary64 (123456 / 1000)) = Inr (binary64 (12346 / 100))"
  "roundToFirstNonZeroDecimal (binary64 (- 5678 / 10000000)) = Inr (binary64 (- 6 / 10000))"
  by code_simp+

end
